theory Spec2Isabelle
  imports Main
begin

section \<open>Request parameter validation of sanic-dantic: \<^verbatim>\<open>basic_definition.py\<close>\<close>

text \<open>
  A shallow embedding of \<^verbatim>\<open>DanticModelObj.__init__\<close> and \<^verbatim>\<open>validate\<close>.
  The collaborators of the module are not part of it and are taken as data or as
  parameters: a pydantic model is the function from the keyword arguments it is called
  with to the outcome of \<^verbatim>\<open>Model(**kwargs).dict()\<close>; \<^verbatim>\<open>json.loads\<close> is a
  parameter \<open>loads\<close>; a sanic request is a record of the attributes that
  \<^verbatim>\<open>validate\<close> reads and of the one it writes.
\<close>

subsection \<open>Python values and dictionaries\<close>

text \<open>
  The values that travel through \<^verbatim>\<open>validate\<close>: strings and lists of strings from the
  query string and the form, what JSON can hold from the body (floating-point numbers
  are left out: no rule of \<^verbatim>\<open>validate\<close> looks at them). A \<open>VDict\<close>
  lists the items of a \<^verbatim>\<open>dict\<close> (its keys are distinct). A dictionary that the
  code builds or passes as keyword arguments is a map from keys to values;
  \<^verbatim>\<open>d.update(d')\<close> is \<open>d ++ d'\<close>.
\<close>

datatype pyval =
  VNone
  | VBool bool
  | VInt int
  | VStr string
  | VList "pyval list"
  | VDict "(string \<times> pyval) list"

type_synonym pydict = "string \<rightharpoonup> pyval"

definition dict_of :: "(string \<times> pyval) list \<Rightarrow> pydict" where
  "dict_of kvs = map_of kvs"

subsection \<open>Validation errors and exceptions\<close>

text \<open>
  \<^verbatim>\<open>ValidationError.errors()\<close> is a list of field errors; each has a location
  \<^verbatim>\<open>loc\<close>, a tuple of field names and indices, and a message \<^verbatim>\<open>msg\<close>.
\<close>

datatype loc_item = LocStr string | LocInt int

record field_error =
  loc :: "loc_item list"
  msg :: string

datatype validation_error = ValidationError (errors: "field_error list")

text \<open>
  The \<^verbatim>\<open>TypeError\<close> of a call \<^verbatim>\<open>Model(**x)\<close>: \<^verbatim>\<open>x\<close> is no mapping, or
  \<^verbatim>\<open>x\<close> yields a key twice. The interpreter's text,
  \<^verbatim>\<open><callee> argument after ** must be a mapping, not <type>\<close> or
  \<^verbatim>\<open><callee> got multiple values for keyword argument '<key>'\<close>, starts with the
  name of the model class, which a model as a function does not have: the error is kept
  by its cause, not by its text.
\<close>

datatype type_error = NotAMapping pyval | MultipleValues string

text \<open>
  What the body of the \<^verbatim>\<open>try\<close> of \<^verbatim>\<open>validate\<close> can raise: pydantic's
  \<^verbatim>\<open>ValidationError\<close>, caught by the first handler, or any other
  \<^verbatim>\<open>Exception\<close>, of which the second handler uses \<^verbatim>\<open>str(e)\<close> only: the
  \<^verbatim>\<open>TypeError\<close> of a call, or an exception of the request, given by its text.
\<close>

datatype exception =
  Validation validation_error
  | TypeError type_error
  | Exception string

type_synonym schema = "pydict \<Rightarrow> exception + pydict"

type_synonym json_loads = "pyval \<Rightarrow> pyval option"

subsection \<open>The request\<close>

text \<open>
  \<^verbatim>\<open>request.headers\<close> is a multi-dictionary: the header lines in the order
  received, a name as often as it was sent (sanic lowers the names). Looking a name up
  gives its first value. \<^verbatim>\<open>request.args\<close> and \<^verbatim>\<open>request.form\<close> map a key to
  the list of its values. \<^verbatim>\<open>request.json\<close> either raises (\<open>Inl\<close>, with the text of
  the exception) or is the parsed body, which need not be a \<^verbatim>\<open>dict\<close>.
  \<open>ctx_params\<close> is \<^verbatim>\<open>request.ctx.params\<close>, \<open>None\<close> while the attribute is not
  set.
\<close>

record request =
  headers :: "(string \<times> pyval) list"
  match_info :: pydict
  args :: "string \<rightharpoonup> string list"
  form :: "string \<rightharpoonup> string list"
  json :: "string + pyval"
  ctx_params :: "pydict option"

subsection \<open>\<^verbatim>\<open>DanticModelObj\<close>\<close>

text \<open>
  The \<^verbatim>\<open>error\<close> attribute of a constructed object: a false value (\<^verbatim>\<open>None\<close> by
  default), \<^verbatim>\<open>True\<close>, or a callable, called as \<^verbatim>\<open>dmo.error(request, e)\<close>.
  \<^verbatim>\<open>validate\<close> only tests a model attribute for truth and calls it, so an attribute
  is \<open>None\<close> when it is false and the model otherwise.
\<close>

datatype 'r error_slot =
  NoHandler
  | RaiseOriginal
  | Handler "request \<Rightarrow> validation_error \<Rightarrow> 'r"

record 'r DanticModelObj =
  dmo_header :: "schema option"
  dmo_query :: "schema option"
  dmo_path :: "schema option"
  dmo_body :: "schema option"
  dmo_form :: "schema option"
  dmo_all :: "schema option"
  dmo_error :: "'r error_slot"

text \<open>
  The arguments of \<^verbatim>\<open>__init__\<close> are any Python objects. A model argument is a false
  value, a class with \<^verbatim>\<open>BaseModel\<close> in its MRO, a true class without it, or a true
  object that is no class (\<^verbatim>\<open>getmro\<close> raises \<^verbatim>\<open>AttributeError\<close> on it). An
  \<^verbatim>\<open>error\<close> argument is a false value, \<^verbatim>\<open>True\<close>, a callable, or another true
  object.
\<close>

datatype model_arg = Falsy | Model schema | OtherClass | NotAClass

datatype 'r error_arg =
  ErrFalsy
  | ErrTrue
  | ErrCallable "request \<Rightarrow> validation_error \<Rightarrow> 'r"
  | ErrOther

datatype init_exception = AssertionError string | AttributeError

datatype raised =
  Reraised validation_error
  | InvalidUsage string
  | ServerError string
  | ServerErrorOfTypeError type_error
  | IndexError
  | UncaughtAttributeError

fun truthy :: "model_arg \<Rightarrow> bool" where
  "truthy Falsy = False"
| "truthy _ = True"

fun slot_of :: "model_arg \<Rightarrow> schema option" where
  "slot_of (Model s) = Some s"
| "slot_of _ = None"

fun error_slot_of :: "'r error_arg \<Rightarrow> 'r error_slot" where
  "error_slot_of ErrTrue = RaiseOriginal"
| "error_slot_of (ErrCallable h) = Handler h"
| "error_slot_of _ = NoHandler"

text \<open>
  The loop \<^verbatim>\<open>for model in [header, path, query, form, body, all]\<close>: the first
  true argument that is not a model ends it.
\<close>

fun check_models :: "model_arg list \<Rightarrow> init_exception option" where
  "check_models [] = None"
| "check_models (Falsy # ms) = check_models ms"
| "check_models (Model s # ms) = check_models ms"
| "check_models (OtherClass # ms) =
     Some (AssertionError (''sanic-dantic: '' @ ''model must inherited from Pydantic.BaseModel''))"
| "check_models (NotAClass # ms) = Some AttributeError"

text \<open>The body of the \<^verbatim>\<open>try\<close> of \<^verbatim>\<open>__init__\<close>, after the seven assignments.\<close>

definition init_checks ::
  "model_arg \<Rightarrow> model_arg \<Rightarrow> model_arg \<Rightarrow> model_arg \<Rightarrow> model_arg \<Rightarrow> model_arg \<Rightarrow>
   'r error_arg \<Rightarrow> init_exception option" where
  "init_checks header query path body form_arg all_arg error =
     (if truthy body \<and> truthy form_arg then
        Some (AssertionError
          (''sanic-dantic: '' @ ''body and form cannot be used at the same time.''))
      else
        (case check_models [header, path, query, form_arg, body, all_arg] of
          Some e \<Rightarrow> Some e
        | None \<Rightarrow>
            (case error of
              ErrOther \<Rightarrow>
                Some (AssertionError
                  (''sanic-dantic: '' @
                   ''the error handler must be a callable function or True''))
            | _ \<Rightarrow> None)))"

text \<open>
  \<^verbatim>\<open>DanticModelObj(header, query, path, body, form, all, error)\<close>: the object, or
  what the constructor raises, and the lines written to \<^verbatim>\<open>error_logger\<close>. An
  \<^verbatim>\<open>AssertionError\<close> is logged and raised again as \<^verbatim>\<open>ServerError(str(e))\<close>; an
  \<^verbatim>\<open>AttributeError\<close> of \<^verbatim>\<open>getmro\<close> is not caught.
\<close>

definition DanticModelObj_init ::
  "model_arg \<Rightarrow> model_arg \<Rightarrow> model_arg \<Rightarrow> model_arg \<Rightarrow> model_arg \<Rightarrow> model_arg \<Rightarrow>
   'r error_arg \<Rightarrow> (raised + 'r DanticModelObj) \<times> string list" where
  "DanticModelObj_init header query path body form_arg all_arg error =
     (case init_checks header query path body form_arg all_arg error of
        Some (AssertionError e) \<Rightarrow> (Inl (ServerError e), [e])
      | Some AttributeError \<Rightarrow> (Inl UncaughtAttributeError, [])
      | None \<Rightarrow>
          (Inr \<lparr> dmo_header = slot_of header, dmo_query = slot_of query,
                 dmo_path = slot_of path, dmo_body = slot_of body,
                 dmo_form = slot_of form_arg, dmo_all = slot_of all_arg,
                 dmo_error = error_slot_of error \<rparr>, []))"

subsection \<open>\<^verbatim>\<open>validate\<close>\<close>

text \<open>
  The dictionary comprehension
  \<^verbatim>\<open>{key: val[0] if len(val) == 1 else val for key, val in items}\<close>,
  used for \<^verbatim>\<open>request.args\<close> and \<^verbatim>\<open>request.form\<close>.
\<close>

definition collapse :: "string list \<Rightarrow> pyval" where
  "collapse val = (if length val = 1 then VStr (hd val) else VList (map VStr val))"

definition flatten :: "(string \<rightharpoonup> string list) \<Rightarrow> pydict" where
  "flatten items = (\<lambda>key. map_option collapse (items key))"

text \<open>\<^verbatim>\<open>parsed_args.update(model(**kwargs).dict())\<close>\<close>

definition update_validated :: "schema \<Rightarrow> pydict \<Rightarrow> pydict \<Rightarrow> exception + pydict" where
  "update_validated model kwargs parsed_args =
     (case model kwargs of
        Inl e \<Rightarrow> Inl e
      | Inr d \<Rightarrow> Inr (parsed_args ++ d))"

text \<open>
  \<^verbatim>\<open>try: payload_json = json.loads(payload_json)\<close> with \<^verbatim>\<open>except: pass\<close>:
  \<open>loads\<close> is \<open>None\<close> where \<^verbatim>\<open>json.loads\<close> raises, and the variable then keeps
  the raw value.
\<close>

definition loads_or_keep :: "json_loads \<Rightarrow> pyval \<Rightarrow> pyval" where
  "loads_or_keep loads payload_json =
     (case loads payload_json of None \<Rightarrow> payload_json | Some v \<Rightarrow> v)"

text \<open>Sequencing inside the \<^verbatim>\<open>try\<close>: the first exception ends the block.\<close>

definition and_then ::
  "exception + pydict \<Rightarrow> (pydict \<Rightarrow> exception + pydict) \<Rightarrow> exception + pydict" where
  "and_then r f = (case r of Inl e \<Rightarrow> Inl e | Inr parsed_args \<Rightarrow> f parsed_args)"

text \<open>
  \<^verbatim>\<open>**request.headers\<close>: the keyword arguments of the call are collected from the
  keys of the headers, one lookup for each; a key that comes a second time raises
  \<^verbatim>\<open>TypeError\<close>.
\<close>

fun first_repeated :: "string list \<Rightarrow> string list \<Rightarrow> string option" where
  "first_repeated seen [] = None"
| "first_repeated seen (k # ks) =
     (if k \<in> set seen then Some k else first_repeated (k # seen) ks)"

definition keywords_of :: "(string \<times> pyval) list \<Rightarrow> type_error + pydict" where
  "keywords_of items =
     (case first_repeated [] (map fst items) of
        Some k \<Rightarrow> Inl (MultipleValues k)
      | None \<Rightarrow> Inr (map_of items))"

definition header_section ::
  "request \<Rightarrow> 'r DanticModelObj \<Rightarrow> pydict \<Rightarrow> exception + pydict" where
  "header_section request dmo parsed_args =
     (case dmo_header dmo of
        None \<Rightarrow> Inr parsed_args
      | Some model \<Rightarrow>
          (case keywords_of (headers request) of
             Inl e \<Rightarrow> Inl (TypeError e)
           | Inr kwargs \<Rightarrow> update_validated model kwargs parsed_args))"

definition path_section ::
  "request \<Rightarrow> 'r DanticModelObj \<Rightarrow> pydict \<Rightarrow> exception + pydict" where
  "path_section request dmo parsed_args =
     (case dmo_path dmo of
        None \<Rightarrow> Inr parsed_args
      | Some model \<Rightarrow> update_validated model (match_info request) parsed_args)"

definition query_section ::
  "request \<Rightarrow> 'r DanticModelObj \<Rightarrow> pydict \<Rightarrow> exception + pydict" where
  "query_section request dmo parsed_args =
     (case dmo_query dmo of
        None \<Rightarrow> Inr parsed_args
      | Some model \<Rightarrow> update_validated model (flatten (args request)) parsed_args)"

text \<open>The branch \<^verbatim>\<open>if dmo.form:\<close>, lines 136 to 150.\<close>

definition form_section ::
  "json_loads \<Rightarrow> request \<Rightarrow> schema \<Rightarrow> pydict \<Rightarrow> exception + pydict" where
  "form_section loads request model parsed_args =
     (let form_data = flatten (form request) in
      case form_data ''payload_json'' of
        None \<Rightarrow> update_validated model form_data parsed_args
      | Some raw \<Rightarrow>
          (let form_data' = form_data(''payload_json'' := None);
               payload_json = loads_or_keep loads raw
           in case payload_json of
                VDict kvs \<Rightarrow>
                  and_then (update_validated model (dict_of kvs) parsed_args)
                    (update_validated model form_data')
              | _ \<Rightarrow> update_validated model form_data' parsed_args))"

text \<open>
  The branch \<^verbatim>\<open>elif dmo.body:\<close>. \<^verbatim>\<open>request.json\<close> may raise; \<^verbatim>\<open>**\<close> on a
  value that is no mapping raises \<^verbatim>\<open>TypeError\<close>.
\<close>

definition body_section ::
  "request \<Rightarrow> schema \<Rightarrow> pydict \<Rightarrow> exception + pydict" where
  "body_section request model parsed_args =
     (case json request of
        Inl s \<Rightarrow> Inl (Exception s)
      | Inr (VDict kvs) \<Rightarrow> update_validated model (dict_of kvs) parsed_args
      | Inr v \<Rightarrow> Inl (TypeError (NotAMapping v)))"

definition form_or_body_section ::
  "json_loads \<Rightarrow> request \<Rightarrow> 'r DanticModelObj \<Rightarrow> pydict \<Rightarrow> exception + pydict" where
  "form_or_body_section loads request dmo parsed_args =
     (case dmo_form dmo of
        Some model \<Rightarrow> form_section loads request model parsed_args
      | None \<Rightarrow>
          (case dmo_body dmo of
             Some model \<Rightarrow> body_section request model parsed_args
           | None \<Rightarrow> Inr parsed_args))"

text \<open>
  Lines 172 to 180 of the branch \<^verbatim>\<open>if dmo.all:\<close>: \<^verbatim>\<open>payload_json\<close> is popped
  from \<^verbatim>\<open>body_params\<close>, and \<^verbatim>\<open>body_params.update(**payload_json)\<close> runs when
  it was parsed to a \<^verbatim>\<open>dict\<close>.
\<close>

definition unpack_payload_json :: "json_loads \<Rightarrow> pydict \<Rightarrow> pydict" where
  "unpack_payload_json loads body_params =
     (case body_params ''payload_json'' of
        None \<Rightarrow> body_params
      | Some raw \<Rightarrow>
          (let body_params' = body_params(''payload_json'' := None);
               payload_json = loads_or_keep loads raw
           in case payload_json of
                VDict kvs \<Rightarrow> body_params' ++ dict_of kvs
              | _ \<Rightarrow> body_params'))"

text \<open>
  \<^verbatim>\<open>body_params\<close>, lines 161 to 180. The \<^verbatim>\<open>except\<close> branch runs only when
  \<^verbatim>\<open>request.json\<close> raises; a body that is parsed to something else than a
  \<^verbatim>\<open>dict\<close> gives \<^verbatim>\<open>{}\<close>.
\<close>

definition body_params :: "json_loads \<Rightarrow> request \<Rightarrow> pydict" where
  "body_params loads request =
     (case json request of
        Inr v \<Rightarrow> (case v of VDict kvs \<Rightarrow> dict_of kvs | _ \<Rightarrow> Map.empty)
      | Inl _ \<Rightarrow> unpack_payload_json loads (flatten (form request)))"

text \<open>
  \<^verbatim>\<open>params\<close>, lines 182 to 186. \<^verbatim>\<open>params.update(request.headers)\<close> stores, for
  each key of the headers, the value that the lookup of the key gives.
\<close>

definition all_params :: "json_loads \<Rightarrow> request \<Rightarrow> pydict" where
  "all_params loads request =
     Map.empty ++ map_of (headers request) ++ match_info request ++ flatten (args request)
       ++ body_params loads request"

definition all_section ::
  "json_loads \<Rightarrow> request \<Rightarrow> 'r DanticModelObj \<Rightarrow> pydict \<Rightarrow> exception + pydict" where
  "all_section loads request dmo parsed_args =
     (case dmo_all dmo of
        None \<Rightarrow> Inr parsed_args
      | Some model \<Rightarrow> update_validated model (all_params loads request) parsed_args)"

text \<open>The body of the \<^verbatim>\<open>try\<close>, lines 120 to 188.\<close>

definition validate_try ::
  "json_loads \<Rightarrow> request \<Rightarrow> 'r DanticModelObj \<Rightarrow> exception + pydict" where
  "validate_try loads request dmo =
     and_then (and_then (and_then (and_then
       (header_section request dmo Map.empty)
       (path_section request dmo))
       (query_section request dmo))
       (form_or_body_section loads request dmo))
       (all_section loads request dmo)"

text \<open>\<^verbatim>\<open>str\<close> of an item of \<^verbatim>\<open>loc\<close>, as the f-string formats it.\<close>

fun str_nat :: "nat \<Rightarrow> string" where
  "str_nat n =
     (if n < 10 then [''0123456789'' ! n]
      else str_nat (n div 10) @ [''0123456789'' ! (n mod 10)])"

definition str_int :: "int \<Rightarrow> string" where
  "str_int i = (if i < 0 then ''-'' @ str_nat (nat (- i)) else str_nat (nat i))"

fun str_loc_item :: "loc_item \<Rightarrow> string" where
  "str_loc_item (LocStr s) = s"
| "str_loc_item (LocInt i) = str_int i"

text \<open>
  Lines 196 and 197: \<^verbatim>\<open>e.errors()[0]\<close> and \<^verbatim>\<open>error_msg.get("loc")[0]\<close> raise
  \<^verbatim>\<open>IndexError\<close> on an empty sequence (\<open>None\<close> here).
\<close>

definition first_error_message :: "validation_error \<Rightarrow> string option" where
  "first_error_message e =
     (case errors e of
        [] \<Rightarrow> None
      | error_msg # _ \<Rightarrow>
          (case loc error_msg of
             [] \<Rightarrow> None
           | l # _ \<Rightarrow> Some (str_loc_item l @ '' '' @ msg error_msg)))"

text \<open>
  The outcome of a call of \<^verbatim>\<open>validate\<close>: it returns \<^verbatim>\<open>parsed_args\<close>, or returns
  what the error handler returned, or raises.
\<close>

datatype 'r outcome =
  Returned pydict
  | Handled 'r
  | Raised raised

text \<open>
  \<^verbatim>\<open>validate(request, dmo)\<close>: the outcome, the request as the call leaves it, and
  the lines written to \<^verbatim>\<open>error_logger\<close>.
\<close>

definition validate ::
  "json_loads \<Rightarrow> request \<Rightarrow> 'r DanticModelObj \<Rightarrow> 'r outcome \<times> request \<times> string list" where
  "validate loads request dmo =
     (case validate_try loads request dmo of
        Inr parsed_args \<Rightarrow>
          (Returned parsed_args, request\<lparr>ctx_params := Some parsed_args\<rparr>, [])
      | Inl (Validation e) \<Rightarrow>
          (case dmo_error dmo of
             RaiseOriginal \<Rightarrow> (Raised (Reraised e), request, [])
           | slot \<Rightarrow>
               (case first_error_message e of
                  None \<Rightarrow> (Raised IndexError, request, [])
                | Some message \<Rightarrow>
                    (case slot of
                       Handler handler \<Rightarrow> (Handled (handler request e), request, [])
                     | _ \<Rightarrow> (Raised (InvalidUsage message), request, [message]))))
      | Inl (TypeError e) \<Rightarrow> (Raised (ServerErrorOfTypeError e), request, [])
      | Inl (Exception s) \<Rightarrow> (Raised (ServerError s), request, []))"

subsection \<open>\<^verbatim>\<open>ParsedArgsObj.__deepcopy__\<close>\<close>

text \<open>
  Whether two objects share state is a question about references, so the objects of
  this part live in a heap: a list of objects, an address being an index. A value is an
  immutable scalar or a reference to a list, a \<^verbatim>\<open>dict\<close> or a \<^verbatim>\<open>ParsedArgsObj\<close>.
  A heap is well formed when every reference in it points into it. \<open>reachable h a\<close>
  are the addresses of the objects that can be reached from \<open>a\<close>, at any depth.
\<close>

type_synonym addr = nat

datatype hval = HNone | HInt int | HStr string | HRef addr

datatype hobj =
  HList "hval list"
  | HDict "(string \<times> hval) list"
  | HParsedArgs "(string \<times> hval) list"

type_synonym heap = "hobj list"

fun refs_val :: "hval \<Rightarrow> addr list" where
  "refs_val (HRef a) = [a]"
| "refs_val _ = []"

fun refs :: "hobj \<Rightarrow> addr list" where
  "refs (HList vs) = concat (map refs_val vs)"
| "refs (HDict kvs) = concat (map (\<lambda>kv. refs_val (snd kv)) kvs)"
| "refs (HParsedArgs kvs) = concat (map (\<lambda>kv. refs_val (snd kv)) kvs)"


inductive_set reachable :: "heap \<Rightarrow> addr \<Rightarrow> addr set" for h :: heap and a :: addr where
  root: "a < length h \<Longrightarrow> a \<in> reachable h a"
| step: "b \<in> reachable h a \<Longrightarrow> c \<in> set (refs (h ! b)) \<Longrightarrow> c < length h \<Longrightarrow>
         c \<in> reachable h a"




text \<open>
  A deep copy for the examples: it copies lists, dictionaries and
  \<^verbatim>\<open>ParsedArgsObj\<close> objects to the depth \<open>fuel\<close>, without memo.
\<close>

fun copy_val :: "nat \<Rightarrow> heap \<Rightarrow> hval \<Rightarrow> (heap \<times> hval) option"
  and copy_vals :: "nat \<Rightarrow> heap \<Rightarrow> hval list \<Rightarrow> (heap \<times> hval list) option" where
  "copy_val 0 h v = None"
| "copy_val (Suc n) h (HRef a) =
     (if a < length h then
        (case h ! a of
           HList vs \<Rightarrow>
             (case copy_vals n h vs of
                None \<Rightarrow> None
              | Some (h', vs') \<Rightarrow> Some (h' @ [HList vs'], HRef (length h')))
         | HDict kvs \<Rightarrow>
             (case copy_vals n h (map snd kvs) of
                None \<Rightarrow> None
              | Some (h', vs') \<Rightarrow>
                  Some (h' @ [HDict (zip (map fst kvs) vs')], HRef (length h')))
         | HParsedArgs kvs \<Rightarrow>
             (case copy_vals n h (map snd kvs) of
                None \<Rightarrow> None
              | Some (h', vs') \<Rightarrow>
                  Some (h' @ [HParsedArgs (zip (map fst kvs) vs')], HRef (length h'))))
      else None)"
| "copy_val (Suc n) h v = Some (h, v)"
| "copy_vals n h [] = Some (h, [])"
| "copy_vals n h (v # vs) =
     (case copy_val n h v of
        None \<Rightarrow> None
      | Some (h', v') \<Rightarrow>
          (case copy_vals n h' vs of
             None \<Rightarrow> None
           | Some (h'', vs') \<Rightarrow> Some (h'', v' # vs')))"




subsection \<open>Vocabulary of the statements\<close>

text \<open>The models that a \<^verbatim>\<open>DanticModelObj\<close> holds.\<close>

definition models_of :: "'r DanticModelObj \<Rightarrow> schema set" where
  "models_of dmo =
     set_option (dmo_header dmo) \<union> set_option (dmo_path dmo) \<union> set_option (dmo_query dmo)
       \<union> set_option (dmo_form dmo) \<union> set_option (dmo_body dmo) \<union> set_option (dmo_all dmo)"

text \<open>
  The validated result of a section: what the section adds to an empty
  \<^verbatim>\<open>parsed_args\<close> (nothing where its model is not set).
\<close>

definition section_output :: "(pydict \<Rightarrow> exception + pydict) \<Rightarrow> pydict" where
  "section_output section =
     (case section Map.empty of Inr d \<Rightarrow> d | Inl _ \<Rightarrow> Map.empty)"

text \<open>The value of a key in the first dictionary of a list that has the key.\<close>

fun precedence_lookup :: "pydict list \<Rightarrow> string \<Rightarrow> pyval option" where
  "precedence_lookup [] key = None"
| "precedence_lookup (d # ds) key =
     (case d key of Some v \<Rightarrow> Some v | None \<Rightarrow> precedence_lookup ds key)"

subsection \<open>Sample collaborators\<close>

text \<open>
  A small family of pydantic models, to run \<^verbatim>\<open>validate\<close> on concrete requests. A
  model declares fields in order, each of type \<^verbatim>\<open>Any\<close> or \<^verbatim>\<open>int\<close>, required
  (\<open>None\<close>) or with a default. A missing required field and a value that is no integer
  are reported in the order of the fields. \<^verbatim>\<open>.dict()\<close> lists every declared field,
  those left out of the call with their defaults, and, with
  \<^verbatim>\<open>Config.extra = 'allow'\<close>, the undeclared keyword arguments too.
\<close>

datatype field_type = TAny | TInt

fun digits_value :: "string \<Rightarrow> nat \<Rightarrow> nat option" where
  "digits_value [] acc = Some acc"
| "digits_value (c # cs) acc =
     (if c \<in> set ''0123456789'' then digits_value cs (10 * acc + (of_char c - 48))
      else None)"

fun coerce :: "field_type \<Rightarrow> pyval \<Rightarrow> pyval option" where
  "coerce TAny v = Some v"
| "coerce TInt (VInt i) = Some (VInt i)"
| "coerce TInt (VStr s) =
     (if s = [] then None else map_option (\<lambda>n. VInt (int n)) (digits_value s 0))"
| "coerce TInt _ = None"

fun validate_fields ::
  "(string \<times> field_type \<times> pyval option) list \<Rightarrow> pydict \<Rightarrow>
   field_error list \<times> (string \<times> pyval) list" where
  "validate_fields [] kwargs = ([], [])"
| "validate_fields ((k, t, d) # fs) kwargs =
     (case validate_fields fs kwargs of (errs, vals) \<Rightarrow>
        (case kwargs k of
           None \<Rightarrow>
             (case d of
                None \<Rightarrow> (\<lparr>loc = [LocStr k], msg = ''field required''\<rparr> # errs, vals)
              | Some dv \<Rightarrow> (errs, (k, dv) # vals))
         | Some v \<Rightarrow>
             (case coerce t v of
                None \<Rightarrow>
                  (\<lparr>loc = [LocStr k], msg = ''value is not a valid integer''\<rparr> # errs, vals)
              | Some v' \<Rightarrow> (errs, (k, v') # vals))))"

definition pydantic_model ::
  "bool \<Rightarrow> (string \<times> field_type \<times> pyval option) list \<Rightarrow> schema" where
  "pydantic_model allow_extra fs kwargs =
     (case validate_fields fs kwargs of
        ([], vals) \<Rightarrow> Inr ((if allow_extra then kwargs else Map.empty) ++ map_of vals)
      | (errs, _) \<Rightarrow> Inl (Validation (ValidationError errs)))"

text \<open>
  A request without query string, form and body (\<^verbatim>\<open>request.json\<close> is \<^verbatim>\<open>None\<close>
  then), and a \<^verbatim>\<open>DanticModelObj()\<close> without arguments.
\<close>

definition empty_request :: request where
  "empty_request =
     \<lparr> headers = [], match_info = Map.empty, args = Map.empty, form = Map.empty,
       json = Inr VNone, ctx_params = None \<rparr>"

definition no_models :: "'r DanticModelObj" where
  "no_models =
     \<lparr> dmo_header = None, dmo_query = None, dmo_path = None, dmo_body = None,
       dmo_form = None, dmo_all = None, dmo_error = NoHandler \<rparr>"

text \<open>
  \<^verbatim>\<open>json.loads\<close> on the two documents of the examples: \<^verbatim>\<open>{"a": 1}\<close> is parsed,
  \<^verbatim>\<open>{not valid json\<close> is refused, as is every other argument of this sample.
\<close>

definition payload_a1 :: string where
  \<open>payload_a1 = ''{"a": 1}''\<close>

definition json_loads_sample :: json_loads where
  "json_loads_sample v = (if v = VStr payload_a1 then Some (VDict [(''a'', VInt 1)]) else None)"

text \<open>
  A form submission: \<^verbatim>\<open>request.json\<close> raises on a body that is not JSON. A
  model with one required integer field, and an error handler.
\<close>

definition form_post :: "(string \<rightharpoonup> string list) \<Rightarrow> request" where
  "form_post items =
     empty_request\<lparr>form := items, json := Inl ''Failed when parsing body as json''\<rparr>"

definition not_json :: string where
  "not_json = ''{not valid json''"

definition page_model :: schema where
  "page_model = pydantic_model False [(''page'', TInt, None)]"

definition say_handled :: "request \<Rightarrow> validation_error \<Rightarrow> string" where
  "say_handled request e = ''handled''"

text \<open>
  A model with a required field \<^verbatim>\<open>x\<close> of any type; a request that carries
  \<^verbatim>\<open>x\<close> in its headers, its path parameters and its query string; an object with
  the model for each of the three.
\<close>

definition x_model :: schema where
  "x_model = pydantic_model False [(''x'', TAny, None)]"

definition x_request :: request where
  "x_request =
     empty_request\<lparr>headers := [(''x'', VStr ''h'')], match_info := [''x'' \<mapsto> VStr ''p''],
       args := [''x'' \<mapsto> [''q'']]\<rparr>"

definition x_models :: "unit DanticModelObj" where
  "x_models =
     no_models\<lparr>dmo_header := Some x_model, dmo_path := Some x_model,
       dmo_query := Some x_model\<rparr>"

text \<open>
  A model with a nested field: \<^verbatim>\<open>items: List[Item]\<close>, where \<^verbatim>\<open>Item\<close> is a model
  with a required field \<^verbatim>\<open>name\<close>. The location of an error inside the list has
  three items: \<^verbatim>\<open>('items', i, 'name')\<close>.
\<close>

fun item_errors :: "pyval list \<Rightarrow> int \<Rightarrow> field_error list" where
  "item_errors [] i = []"
| "item_errors (v # vs) i =
     (case v of
        VDict kvs \<Rightarrow>
          (if map_of kvs ''name'' = None
           then [\<lparr>loc = [LocStr ''items'', LocInt i, LocStr ''name''],
                   msg = ''field required''\<rparr>]
           else [])
      | _ \<Rightarrow> [\<lparr>loc = [LocStr ''items'', LocInt i], msg = ''value is not a valid dict''\<rparr>])
     @ item_errors vs (i + 1)"

fun item_dict :: "pyval \<Rightarrow> pyval" where
  "item_dict (VDict kvs) =
     VDict [(''name'', case map_of kvs ''name'' of Some v \<Rightarrow> v | None \<Rightarrow> VNone)]"
| "item_dict v = v"

definition items_model :: schema where
  "items_model kwargs =
     (case kwargs ''items'' of
        None \<Rightarrow>
          Inl (Validation (ValidationError
            [\<lparr>loc = [LocStr ''items''], msg = ''field required''\<rparr>]))
      | Some (VList vs) \<Rightarrow>
          (case item_errors vs 0 of
             [] \<Rightarrow> Inr [''items'' \<mapsto> VList (map item_dict vs)]
           | errs \<Rightarrow> Inl (Validation (ValidationError errs)))
      | Some _ \<Rightarrow>
          Inl (Validation (ValidationError
            [\<lparr>loc = [LocStr ''items''], msg = ''value is not a valid list''\<rparr>])))"

subsection \<open>The specification's wording of two rules\<close>

text \<open>
  The body parameters of the \<^verbatim>\<open>all\<close> branch as the specification words them:
  ``the parsed JSON body if it parses to a mapping; otherwise the flattened form
  mapping'', with the \<^verbatim>\<open>payload_json\<close> rule applied. It is compared with
  \<open>body_params\<close> below.
\<close>

definition body_params_spec :: "json_loads \<Rightarrow> request \<Rightarrow> pydict" where
  "body_params_spec loads request =
     (case json request of
        Inr (VDict kvs) \<Rightarrow> dict_of kvs
      | _ \<Rightarrow> unpack_payload_json loads (flatten (form request)))"

text \<open>
  The message of the client fault as the specification words it:
  ``\<^verbatim>\<open><first-error-location> <first-error-message>\<close>'', for a way \<open>show_loc\<close> of
  writing a location. It is compared with the message of \<open>validate\<close> below.
\<close>

definition message_spec :: "(loc_item list \<Rightarrow> string) \<Rightarrow> validation_error \<Rightarrow> string" where
  "message_spec show_loc e = show_loc (loc (hd (errors e))) @ '' '' @ msg (hd (errors e))"

section \<open>Properties\<close>

subsection \<open>Unfolding facts and the shape of a section\<close>

lemmas section_defs =
  validate_try_def and_then_def header_section_def path_section_def query_section_def
  form_or_body_section_def form_section_def body_section_def all_section_def all_params_def
  body_params_def unpack_payload_json_def update_validated_def flatten_def collapse_def
  loads_or_keep_def dict_of_def keywords_of_def

lemma update_validated_Inr:
  "update_validated model kwargs p = Inr p' \<longleftrightarrow> (\<exists>d. model kwargs = Inr d \<and> p' = p ++ d)"
  by (auto simp: update_validated_def split: sum.splits)

lemma update_validated_Inl:
  "update_validated model kwargs p = Inl e \<longleftrightarrow> model kwargs = Inl e"
  by (auto simp: update_validated_def split: sum.splits)

lemma and_then_Inl:
  "and_then r f = Inl e \<longleftrightarrow> r = Inl e \<or> (\<exists>p. r = Inr p \<and> f p = Inl e)"
  by (auto simp: and_then_def split: sum.splits)

lemma and_then_Inr:
  "and_then r f = Inr q \<longleftrightarrow> (\<exists>p. r = Inr p \<and> f p = Inr q)"
  by (auto simp: and_then_def split: sum.splits)

subsection \<open>A validation error of the \<^verbatim>\<open>try\<close> comes from a model of the object\<close>

lemma header_section_origin:
  "header_section request dmo p = Inl (Validation e) \<Longrightarrow>
   \<exists>model kwargs. model \<in> models_of dmo \<and> model kwargs = Inl (Validation e)"
  by (auto simp: header_section_def models_of_def update_validated_Inl
      split: option.splits sum.splits)

lemma path_section_origin:
  "path_section request dmo p = Inl (Validation e) \<Longrightarrow>
   \<exists>model kwargs. model \<in> models_of dmo \<and> model kwargs = Inl (Validation e)"
  by (auto simp: path_section_def models_of_def update_validated_Inl split: option.splits)

lemma query_section_origin:
  "query_section request dmo p = Inl (Validation e) \<Longrightarrow>
   \<exists>model kwargs. model \<in> models_of dmo \<and> model kwargs = Inl (Validation e)"
  by (auto simp: query_section_def models_of_def update_validated_Inl split: option.splits)

lemma form_section_origin:
  "form_section loads request model p = Inl (Validation e) \<Longrightarrow>
   \<exists>kwargs. model kwargs = Inl (Validation e)"
  by (auto simp: form_section_def Let_def and_then_Inl update_validated_Inl
      split: option.splits pyval.splits)

lemma body_section_origin:
  "body_section request model p = Inl (Validation e) \<Longrightarrow>
   \<exists>kwargs. model kwargs = Inl (Validation e)"
  by (auto simp: body_section_def update_validated_Inl split: sum.splits pyval.splits)

lemma form_or_body_section_origin:
  "form_or_body_section loads request dmo p = Inl (Validation e) \<Longrightarrow>
   \<exists>model kwargs. model \<in> models_of dmo \<and> model kwargs = Inl (Validation e)"
  unfolding form_or_body_section_def models_of_def
  by (auto split: option.splits dest!: form_section_origin body_section_origin)

lemma all_section_origin:
  "all_section loads request dmo p = Inl (Validation e) \<Longrightarrow>
   \<exists>model kwargs. model \<in> models_of dmo \<and> model kwargs = Inl (Validation e)"
  by (auto simp: all_section_def models_of_def update_validated_Inl split: option.splits)

lemma validate_try_origin:
  assumes "validate_try loads request dmo = Inl (Validation e)"
  shows "\<exists>model kwargs. model \<in> models_of dmo \<and> model kwargs = Inl (Validation e)"
  using assms unfolding validate_try_def and_then_Inl
  by (blast dest: header_section_origin path_section_origin query_section_origin
      form_or_body_section_origin all_section_origin)

subsection \<open>The handlers of \<^verbatim>\<open>validate\<close>\<close>

text \<open>
  C4. With \<^verbatim>\<open>error=True\<close>, a \<^verbatim>\<open>ValidationError\<close> that a model of the object
  raises in the \<^verbatim>\<open>try\<close> is raised again as it is: \<^verbatim>\<open>validate\<close> raises the very
  error \<open>e\<close> that the model produced, writes no log line and leaves the request as it
  was.
\<close>

theorem validate_reraises_original:
  assumes "dmo_error dmo = RaiseOriginal"
    and "validate_try loads request dmo = Inl (Validation e)"
  shows "validate loads request dmo = (Raised (Reraised e), request, [])
    \<and> (\<exists>model kwargs. model \<in> models_of dmo \<and> model kwargs = Inl (Validation e))"
  using assms validate_try_origin [OF assms(2)] by (simp add: validate_def)

text \<open>
  A query model with a required integer field \<^verbatim>\<open>page\<close>, the query string
  \<^verbatim>\<open>page=x\<close> and \<^verbatim>\<open>error=True\<close>.
\<close>

theorem validate_reraises_original_witness:
  "dmo_error (no_models\<lparr>dmo_query := Some (pydantic_model False [(''page'', TInt, None)]),
       dmo_error := RaiseOriginal\<rparr> :: unit DanticModelObj) = RaiseOriginal
   \<and> validate_try json_loads_sample (empty_request\<lparr>args := [''page'' \<mapsto> [''x'']]\<rparr>)
       (no_models\<lparr>dmo_query := Some (pydantic_model False [(''page'', TInt, None)]),
          dmo_error := RaiseOriginal\<rparr> :: unit DanticModelObj)
     = Inl (Validation (ValidationError
          [\<lparr>loc = [LocStr ''page''], msg = ''value is not a valid integer''\<rparr>]))
   \<and> validate json_loads_sample (empty_request\<lparr>args := [''page'' \<mapsto> [''x'']]\<rparr>)
       (no_models\<lparr>dmo_query := Some (pydantic_model False [(''page'', TInt, None)]),
          dmo_error := RaiseOriginal\<rparr> :: unit DanticModelObj)
     = (Raised (Reraised (ValidationError
          [\<lparr>loc = [LocStr ''page''], msg = ''value is not a valid integer''\<rparr>])),
        empty_request\<lparr>args := [''page'' \<mapsto> [''x'']]\<rparr>, [])"
  using validate_reraises_original
    [of "no_models\<lparr>dmo_query := Some (pydantic_model False [(''page'', TInt, None)]),
          dmo_error := RaiseOriginal\<rparr> :: unit DanticModelObj"
        json_loads_sample "empty_request\<lparr>args := [''page'' \<mapsto> [''x'']]\<rparr>"
        "ValidationError
          [\<lparr>loc = [LocStr ''page''], msg = ''value is not a valid integer''\<rparr>]"]
  by (simp add: section_defs empty_request_def no_models_def pydantic_model_def)

text \<open>
  C9. \<^verbatim>\<open>validate\<close> assigns \<^verbatim>\<open>request.ctx.params\<close> on the success path only.
  Whatever a call yields: when it returns \<^verbatim>\<open>parsed_args\<close>, the \<^verbatim>\<open>try\<close> has
  succeeded with it and the request differs from the one passed in by
  \<^verbatim>\<open>ctx.params = parsed_args\<close> alone; when it returns the error handler's result or
  raises (the validation error itself, \<^verbatim>\<open>InvalidUsage\<close>, \<^verbatim>\<open>ServerError\<close>, or an
  \<^verbatim>\<open>IndexError\<close> of the message formatting), the request is the one passed in. The
  error handler is a function of the request and the error; what it may do to the
  request on its own is outside of \<^verbatim>\<open>validate\<close>.
\<close>

theorem validate_sets_ctx_only_on_success:
  assumes "validate loads request dmo = (out, request', lg)"
  shows "(case out of
            Returned parsed_args \<Rightarrow>
              validate_try loads request dmo = Inr parsed_args
              \<and> request' = request\<lparr>ctx_params := Some parsed_args\<rparr>
          | Handled r \<Rightarrow> request' = request
          | Raised x \<Rightarrow> request' = request)"
  using assms
  by (auto simp: validate_def
      split: sum.splits exception.splits error_slot.splits option.splits outcome.splits)

text \<open>
  The query string \<^verbatim>\<open>page=x\<close> against a model with an integer field, without error
  handler, with \<^verbatim>\<open>error=True\<close> and with a handler; a body model on a request
  without body; and \<^verbatim>\<open>page=3\<close>, where the call succeeds.
\<close>

theorem validate_sets_ctx_only_on_success_witness:
  "validate json_loads_sample (empty_request\<lparr>args := [''page'' \<mapsto> [''x'']]\<rparr>)
       (no_models\<lparr>dmo_query := Some page_model\<rparr> :: string DanticModelObj)
     = (Raised (InvalidUsage ''page value is not a valid integer''),
        empty_request\<lparr>args := [''page'' \<mapsto> [''x'']]\<rparr>,
        [''page value is not a valid integer''])
   \<and> validate json_loads_sample (empty_request\<lparr>args := [''page'' \<mapsto> [''x'']]\<rparr>)
       (no_models\<lparr>dmo_query := Some page_model, dmo_error := RaiseOriginal\<rparr>
         :: string DanticModelObj)
     = (Raised (Reraised (ValidationError
          [\<lparr>loc = [LocStr ''page''], msg = ''value is not a valid integer''\<rparr>])),
        empty_request\<lparr>args := [''page'' \<mapsto> [''x'']]\<rparr>, [])
   \<and> validate json_loads_sample (empty_request\<lparr>args := [''page'' \<mapsto> [''x'']]\<rparr>)
       (no_models\<lparr>dmo_query := Some page_model, dmo_error := Handler say_handled\<rparr>)
     = (Handled ''handled'', empty_request\<lparr>args := [''page'' \<mapsto> [''x'']]\<rparr>, [])
   \<and> validate json_loads_sample empty_request
       (no_models\<lparr>dmo_body := Some page_model\<rparr> :: string DanticModelObj)
     = (Raised (ServerErrorOfTypeError (NotAMapping VNone)), empty_request, [])
   \<and> (case validate json_loads_sample (empty_request\<lparr>args := [''page'' \<mapsto> [''3'']]\<rparr>)
          (no_models\<lparr>dmo_query := Some page_model\<rparr> :: string DanticModelObj) of
         (Returned parsed_args, request', lg) \<Rightarrow>
           ctx_params request' = Some parsed_args \<and> parsed_args ''page'' = Some (VInt 3)
       | _ \<Rightarrow> False)"
  using
    validate_sets_ctx_only_on_success
      [of json_loads_sample "empty_request\<lparr>args := [''page'' \<mapsto> [''x'']]\<rparr>"
        "no_models\<lparr>dmo_query := Some page_model\<rparr> :: string DanticModelObj"
        "Raised (InvalidUsage ''page value is not a valid integer'')"
        "empty_request\<lparr>args := [''page'' \<mapsto> [''x'']]\<rparr>"
        "[''page value is not a valid integer'']"]
  by (simp add: validate_def first_error_message_def section_defs
      empty_request_def no_models_def pydantic_model_def page_model_def say_handled_def)

subsection \<open>Construction\<close>

text \<open>
  C8. When both \<^verbatim>\<open>body\<close> and \<^verbatim>\<open>form\<close> are supplied (both arguments are true,
  as every class is), the constructor fails whatever the other arguments are: the
  \<^verbatim>\<open>AssertionError\<close> is logged and \<^verbatim>\<open>ServerError\<close> is raised with its text, and
  no object is produced.
\<close>

theorem init_rejects_body_and_form:
  assumes "truthy body" and "truthy form_arg"
  shows "DanticModelObj_init header query path body form_arg all_arg error =
     (Inl (ServerError ''sanic-dantic: body and form cannot be used at the same time.''),
      [''sanic-dantic: body and form cannot be used at the same time.''])"
  using assms by (simp add: DanticModelObj_init_def init_checks_def)

theorem init_rejects_body_and_form_witness:
  "truthy (Model (pydantic_model False [(''a'', TInt, None)]))
   \<and> truthy (Model (pydantic_model False [(''b'', TInt, None)]))
   \<and> DanticModelObj_init Falsy Falsy Falsy
        (Model (pydantic_model False [(''a'', TInt, None)]))
        (Model (pydantic_model False [(''b'', TInt, None)])) Falsy (ErrFalsy :: unit error_arg)
      = (Inl (ServerError ''sanic-dantic: body and form cannot be used at the same time.''),
         [''sanic-dantic: body and form cannot be used at the same time.''])"
  using init_rejects_body_and_form
    [of "Model (pydantic_model False [(''a'', TInt, None)])"
        "Model (pydantic_model False [(''b'', TInt, None)])" Falsy Falsy Falsy Falsy
        "ErrFalsy :: unit error_arg"]
  by simp

subsection \<open>Flattening of the query string and of the form\<close>

text \<open>
  C7. The query model is called with the flattened \<^verbatim>\<open>request.args\<close>, and
  flattening maps a key with exactly one value to that value, a scalar, and a key with
  any other number of values to the list of its values; a key that is not there stays
  absent.
\<close>

theorem query_flattening:
  "(dmo_query dmo = Some model \<longrightarrow>
      query_section request dmo parsed_args
        = update_validated model (flatten (args request)) parsed_args)
   \<and> (items key = None \<longrightarrow> flatten items key = None)
   \<and> (items key = Some [v] \<longrightarrow> flatten items key = Some (VStr v))
   \<and> (items key = Some vs \<and> length vs \<noteq> 1 \<longrightarrow>
        flatten items key = Some (VList (map VStr vs)))"
  by (simp add: query_section_def flatten_def collapse_def)

text \<open>
  \<^verbatim>\<open>tag=a&tag=b\<close> is passed as the list of \<^verbatim>\<open>a\<close> and \<^verbatim>\<open>b\<close>, and \<^verbatim>\<open>tag=a\<close>
  alone as the string \<^verbatim>\<open>a\<close>.
\<close>

theorem query_flattening_witness:
  "flatten [''tag'' \<mapsto> [''a'', ''b'']] ''tag'' = Some (VList [VStr ''a'', VStr ''b''])
   \<and> flatten [''tag'' \<mapsto> [''a'']] ''tag'' = Some (VStr ''a'')
   \<and> flatten [''tag'' \<mapsto> [''a'']] ''other'' = None
   \<and> query_section (empty_request\<lparr>args := [''tag'' \<mapsto> [''a'', ''b'']]\<rparr>)
        (no_models\<lparr>dmo_query := Some (pydantic_model False [(''tag'', TAny, None)])\<rparr>
          :: unit DanticModelObj) Map.empty
      = update_validated (pydantic_model False [(''tag'', TAny, None)])
          (flatten [''tag'' \<mapsto> [''a'', ''b'']]) Map.empty"
  using
    query_flattening
      [of "no_models\<lparr>dmo_query := Some (pydantic_model False [(''tag'', TAny, None)])\<rparr>
          :: unit DanticModelObj"
        "pydantic_model False [(''tag'', TAny, None)]"
        "empty_request\<lparr>args := [''tag'' \<mapsto> [''a'', ''b'']]\<rparr>" Map.empty
        "[''tag'' \<mapsto> [''a'', ''b'']]" "''tag''" "''a''" "[''a'', ''b'']"]
    query_flattening
      [of "no_models :: unit DanticModelObj" "pydantic_model False []" empty_request Map.empty
        "[''tag'' \<mapsto> [''a'']]" "''tag''" "''a''" "[]"]
    query_flattening
      [of "no_models :: unit DanticModelObj" "pydantic_model False []" empty_request Map.empty
        "[''tag'' \<mapsto> [''a'']]" "''other''" "''a''" "[]"]
  by (simp add: empty_request_def no_models_def)

lemma case_collapse:
  "(case collapse val of VDict kvs \<Rightarrow> a kvs | _ \<Rightarrow> b) = b"
  by (simp add: collapse_def)

lemma flatten_upd_None: "flatten (items(key := None)) = (flatten items)(key := None)"
  by (auto simp: flatten_def)

lemma flatten_Some: "items key = Some val \<Longrightarrow> flatten items key = Some (collapse val)"
  by (simp add: flatten_def)

lemma flatten_None: "items key = None \<Longrightarrow> flatten items key = None"
  by (simp add: flatten_def)

lemma loads_or_keep_failed: "loads raw = None \<Longrightarrow> loads_or_keep loads raw = raw"
  by (simp add: loads_or_keep_def)

lemma form_section_invalid_payload:
  assumes "form request ''payload_json'' = Some val" and "loads (collapse val) = None"
  shows "form_section loads request model p
    = update_validated model (flatten ((form request)(''payload_json'' := None))) p"
  using assms
  by (simp add: form_section_def Let_def flatten_Some flatten_upd_None loads_or_keep_failed
      case_collapse)

lemma form_section_no_payload:
  assumes "form request ''payload_json'' = None"
  shows "form_section loads request model p = update_validated model (flatten (form request)) p"
  using assms by (simp add: form_section_def flatten_None)

lemma unpack_invalid_payload:
  assumes "items ''payload_json'' = Some val" and "loads (collapse val) = None"
  shows "unpack_payload_json loads (flatten items) = flatten (items(''payload_json'' := None))"
  using assms
  by (simp add: unpack_payload_json_def Let_def flatten_Some flatten_upd_None
      loads_or_keep_failed case_collapse)

lemma unpack_no_payload:
  assumes "items ''payload_json'' = None"
  shows "unpack_payload_json loads (flatten items) = flatten items"
  using assms by (simp add: unpack_payload_json_def flatten_None)

subsection \<open>\<^verbatim>\<open>payload_json\<close> that is not JSON\<close>

text \<open>
  C6. When the form has a \<^verbatim>\<open>payload_json\<close> field whose flattened value
  \<^verbatim>\<open>json.loads\<close> refuses, the field does not make \<^verbatim>\<open>validate\<close> fail: the form
  branch validates the flattened form without the field against the form model, once,
  and the whole \<^verbatim>\<open>try\<close> yields what it yields on the request whose form never had
  the field. So does \<^verbatim>\<open>validate\<close>, when no error handler is set (a handler is
  passed the request, field included).
\<close>

theorem invalid_payload_json_dropped:
  assumes "form request ''payload_json'' = Some val" and "loads (collapse val) = None"
  shows "(dmo_form dmo = Some model \<longrightarrow>
            form_or_body_section loads request dmo parsed_args
              = update_validated model (flatten ((form request)(''payload_json'' := None)))
                  parsed_args)
    \<and> validate_try loads request dmo
        = validate_try loads (request\<lparr>form := (form request)(''payload_json'' := None)\<rparr>) dmo
    \<and> ((\<forall>handler. dmo_error dmo \<noteq> Handler handler) \<longrightarrow>
          fst (validate loads request dmo)
            = fst (validate loads
                (request\<lparr>form := (form request)(''payload_json'' := None)\<rparr>) dmo))"
proof -
  let ?request' = "request\<lparr>form := (form request)(''payload_json'' := None)\<rparr>"
  have f: "form_section loads request m p = form_section loads ?request' m p" for m p
    by (simp add: form_section_invalid_payload [where loads = loads, OF assms]
        form_section_no_payload)
  have b: "body_params loads request = body_params loads ?request'"
    by (simp add: body_params_def
        unpack_invalid_payload [where loads = loads and items = "form request", OF assms]
        unpack_no_payload split: sum.splits)
  have s1: "header_section ?request' dmo = header_section request dmo"
    by (simp add: fun_eq_iff header_section_def split: option.splits)
  have s2: "path_section ?request' dmo = path_section request dmo"
    by (simp add: fun_eq_iff path_section_def split: option.splits)
  have s3: "query_section ?request' dmo = query_section request dmo"
    by (simp add: fun_eq_iff query_section_def split: option.splits)
  have s4: "form_or_body_section loads ?request' dmo = form_or_body_section loads request dmo"
    by (simp add: fun_eq_iff form_or_body_section_def body_section_def f split: option.splits)
  have s5: "all_section loads ?request' dmo = all_section loads request dmo"
    by (simp add: fun_eq_iff all_section_def all_params_def b split: option.splits)
  have t: "validate_try loads request dmo = validate_try loads ?request' dmo"
    by (simp only: validate_try_def s1 s2 s3 s4 s5)
  have "fst (validate loads request dmo) = fst (validate loads ?request' dmo)"
    if "\<forall>handler. dmo_error dmo \<noteq> Handler handler"
    using that
    by (cases "dmo_error dmo")
      (auto simp: validate_def t [symmetric] split: sum.splits exception.splits option.splits)
  with t show ?thesis
    by (simp add: form_or_body_section_def
        form_section_invalid_payload [where loads = loads, OF assms])
qed

text \<open>
  A form with \<^verbatim>\<open>payload_json={not valid json\<close> and \<^verbatim>\<open>b=2\<close>, against a form
  model with an integer field \<^verbatim>\<open>b\<close>.
\<close>

theorem invalid_payload_json_dropped_witness:
  "form (form_post [''payload_json'' \<mapsto> [not_json], ''b'' \<mapsto> [''2'']]) ''payload_json''
     = Some [not_json]
   \<and> json_loads_sample (collapse [not_json]) = None
   \<and> validate_try json_loads_sample
        (form_post [''payload_json'' \<mapsto> [not_json], ''b'' \<mapsto> [''2'']])
        (no_models\<lparr>dmo_form := Some (pydantic_model False [(''b'', TInt, None)])\<rparr>
          :: unit DanticModelObj)
      = validate_try json_loads_sample
        (form_post [''payload_json'' \<mapsto> [not_json], ''b'' \<mapsto> [''2'']]
         \<lparr>form := (form (form_post [''payload_json'' \<mapsto> [not_json], ''b'' \<mapsto> [''2'']]))
            (''payload_json'' := None)\<rparr>)
        (no_models\<lparr>dmo_form := Some (pydantic_model False [(''b'', TInt, None)])\<rparr>
          :: unit DanticModelObj)
   \<and> (case validate_try json_loads_sample
        (form_post [''payload_json'' \<mapsto> [not_json], ''b'' \<mapsto> [''2'']])
        (no_models\<lparr>dmo_form := Some (pydantic_model False [(''b'', TInt, None)])\<rparr>
          :: unit DanticModelObj) of
         Inr parsed_args \<Rightarrow>
           parsed_args ''b'' = Some (VInt 2) \<and> parsed_args ''payload_json'' = None
       | Inl e \<Rightarrow> False)"
  using invalid_payload_json_dropped
    [of "form_post [''payload_json'' \<mapsto> [not_json], ''b'' \<mapsto> [''2'']]"
        "[not_json]" json_loads_sample
        "no_models\<lparr>dmo_form := Some (pydantic_model False [(''b'', TInt, None)])\<rparr>
          :: unit DanticModelObj"
        "pydantic_model False [(''b'', TInt, None)]" Map.empty]
  by (simp add: section_defs empty_request_def no_models_def form_post_def pydantic_model_def
      json_loads_sample_def not_json_def payload_a1_def)

subsection \<open>The two passes of the form branch\<close>




subsection \<open>The body parameters of the \<^verbatim>\<open>all\<close> branch\<close>

text \<open>
  C2 (amended). When \<^verbatim>\<open>dmo.all\<close> is set, its model is called with the headers
  overwritten by the path parameters, those by the flattened query string, those by the
  body parameters. The body parameters are: the parsed JSON body when
  \<^verbatim>\<open>request.json\<close> is a \<^verbatim>\<open>dict\<close>; the empty dictionary when \<^verbatim>\<open>request.json\<close>
  is any other value; and, when \<^verbatim>\<open>request.json\<close> raises, the flattened form, from
  which \<^verbatim>\<open>payload_json\<close> is removed and into which its keys are spliced when
  \<^verbatim>\<open>json.loads\<close> parses it to a \<^verbatim>\<open>dict\<close> (nothing is spliced when it is refused
  or parsed to something else).
\<close>

theorem all_section_body_params:
  assumes "dmo_all dmo = Some model"
  shows "all_section loads request dmo parsed_args
      = update_validated model
          (map_of (headers request) ++ match_info request ++ flatten (args request)
             ++ body_params loads request) parsed_args
    \<and> body_params loads request
      = (case json request of
           Inr (VDict kvs) \<Rightarrow> dict_of kvs
         | Inr _ \<Rightarrow> Map.empty
         | Inl _ \<Rightarrow>
             (case form request ''payload_json'' of
                None \<Rightarrow> flatten (form request)
              | Some val \<Rightarrow>
                  (case loads (collapse val) of
                     Some (VDict kvs) \<Rightarrow>
                       flatten ((form request)(''payload_json'' := None)) ++ dict_of kvs
                   | _ \<Rightarrow> flatten ((form request)(''payload_json'' := None)))))"
proof -
  have "unpack_payload_json loads (flatten items)
      = (case items ''payload_json'' of
           None \<Rightarrow> flatten items
         | Some val \<Rightarrow>
             (case loads (collapse val) of
                Some (VDict kvs) \<Rightarrow> flatten (items(''payload_json'' := None)) ++ dict_of kvs
              | _ \<Rightarrow> flatten (items(''payload_json'' := None))))" for items
  proof (cases "items ''payload_json''")
    case None
    then show ?thesis by (simp add: unpack_no_payload)
  next
    case (Some val)
    show ?thesis
    proof (cases "loads (collapse val)")
      case None
      with Some show ?thesis
        by (simp add: unpack_invalid_payload [where loads = loads and items = items])
    next
      case (Some v)
      with \<open>items ''payload_json'' = Some val\<close> show ?thesis
        by (simp add: unpack_payload_json_def Let_def flatten_Some flatten_upd_None
            loads_or_keep_def split: pyval.splits)
    qed
  qed
  then show ?thesis
    using assms
    by (simp add: all_section_def all_params_def body_params_def
        split: sum.splits pyval.splits)
qed

text \<open>
  A form with \<^verbatim>\<open>payload_json = '{"a": 1}'\<close> and \<^verbatim>\<open>b=2\<close> and a header, against a
  model that allows every field; a \<^verbatim>\<open>payload_json\<close> that is not JSON; a JSON body.
\<close>

theorem all_section_body_params_witness:
  "(case all_section json_loads_sample
      (form_post [''payload_json'' \<mapsto> [payload_a1], ''b'' \<mapsto> [''2'']]
         \<lparr>headers := [(''h'', VStr ''1'')]\<rparr>)
      (no_models\<lparr>dmo_all := Some (pydantic_model True [])\<rparr> :: unit DanticModelObj)
      Map.empty of
      Inr parsed_args \<Rightarrow>
        parsed_args ''a'' = Some (VInt 1) \<and> parsed_args ''b'' = Some (VStr ''2'')
        \<and> parsed_args ''h'' = Some (VStr ''1'') \<and> parsed_args ''payload_json'' = None
    | Inl e \<Rightarrow> False)
   \<and> body_params json_loads_sample
        (form_post [''payload_json'' \<mapsto> [not_json], ''b'' \<mapsto> [''2'']]) ''b''
      = Some (VStr ''2'')
   \<and> body_params json_loads_sample
        (form_post [''payload_json'' \<mapsto> [not_json], ''b'' \<mapsto> [''2'']]) ''payload_json''
      = None
   \<and> body_params json_loads_sample
        (empty_request\<lparr>json := Inr (VDict [(''b'', VInt 5)]), form := [''b'' \<mapsto> [''2'']]\<rparr>)
        ''b''
      = Some (VInt 5)"
proof -
  let ?dmo = "no_models\<lparr>dmo_all := Some (pydantic_model True [])\<rparr> :: unit DanticModelObj"
  have 1: "dmo_all ?dmo = Some (pydantic_model True [])"
    by simp
  show ?thesis
    using
      all_section_body_params
        [of ?dmo "pydantic_model True []" json_loads_sample
          "form_post [''payload_json'' \<mapsto> [payload_a1], ''b'' \<mapsto> [''2'']]
             \<lparr>headers := [(''h'', VStr ''1'')]\<rparr>" Map.empty, OF 1]
      all_section_body_params
        [of ?dmo "pydantic_model True []" json_loads_sample
          "form_post [''payload_json'' \<mapsto> [not_json], ''b'' \<mapsto> [''2'']]" Map.empty, OF 1]
      all_section_body_params
        [of ?dmo "pydantic_model True []" json_loads_sample
          "empty_request\<lparr>json := Inr (VDict [(''b'', VInt 5)]),
             form := [''b'' \<mapsto> [''2'']]\<rparr>"
          Map.empty, OF 1]
    by (simp add: empty_request_def no_models_def form_post_def pydantic_model_def
        json_loads_sample_def not_json_def payload_a1_def update_validated_def flatten_def
        collapse_def dict_of_def map_add_def)
qed

text \<open>
  The claim as it was stated fails on the url-encoded body \<^verbatim>\<open>123\<close>:
  \<^verbatim>\<open>request.json\<close> is the number 123, no mapping, and \<^verbatim>\<open>request.form\<close> has the
  key \<^verbatim>\<open>123\<close> with an empty value. The code takes \<^verbatim>\<open>{}\<close>, not the flattened
  form.
\<close>

theorem body_params_counterexample:
  "body_params json_loads_sample
      (empty_request\<lparr>json := Inr (VInt 123), form := [''123'' \<mapsto> ['''']]\<rparr>) ''123'' = None
   \<and> body_params_spec json_loads_sample
      (empty_request\<lparr>json := Inr (VInt 123), form := [''123'' \<mapsto> ['''']]\<rparr>) ''123''
     = Some (VStr '''')
   \<and> body_params json_loads_sample
      (empty_request\<lparr>json := Inr (VInt 123), form := [''123'' \<mapsto> ['''']]\<rparr>)
     \<noteq> body_params_spec json_loads_sample
      (empty_request\<lparr>json := Inr (VInt 123), form := [''123'' \<mapsto> ['''']]\<rparr>)"
proof -
  let ?request = "empty_request\<lparr>json := Inr (VInt 123), form := [''123'' \<mapsto> ['''']]\<rparr>"
  have 1: "body_params json_loads_sample ?request ''123'' = None"
    by (simp add: body_params_def empty_request_def)
  have 2: "body_params_spec json_loads_sample ?request ''123'' = Some (VStr '''')"
    by (simp add: body_params_spec_def unpack_payload_json_def flatten_def collapse_def
        empty_request_def)
  from 1 2 have "body_params json_loads_sample ?request
      \<noteq> body_params_spec json_loads_sample ?request"
    by (metis option.distinct(1))
  with 1 2 show ?thesis by blast
qed

subsection \<open>The message of the client fault\<close>

text \<open>
  C5 (amended). Without error override, when a model of the object raises a
  \<^verbatim>\<open>ValidationError\<close> whose first field error has a location that is not empty,
  \<^verbatim>\<open>validate\<close> logs and raises \<^verbatim>\<open>InvalidUsage\<close> with the message made of the
  first item of that location (the name of the top-level field), a space, and the
  message of that error.
\<close>

theorem validate_default_message:
  assumes "dmo_error dmo = NoHandler"
    and "validate_try loads request dmo = Inl (Validation e)"
    and "errors e = fe # rest"
    and "loc fe = l # ls"
  shows "validate loads request dmo
    = (Raised (InvalidUsage (str_loc_item l @ '' '' @ msg fe)), request,
       [str_loc_item l @ '' '' @ msg fe])"
  using assms by (simp add: validate_def first_error_message_def)

text \<open>
  A body whose list \<^verbatim>\<open>items\<close> has an element without \<^verbatim>\<open>name\<close>: the location of
  the error is \<^verbatim>\<open>('items', 0, 'name')\<close>, the message names \<^verbatim>\<open>items\<close> only.
\<close>

theorem validate_default_message_witness:
  "validate json_loads_sample
      (empty_request\<lparr>json := Inr (VDict [(''items'', VList [VDict []])])\<rparr>)
      (no_models\<lparr>dmo_body := Some items_model\<rparr> :: unit DanticModelObj)
     = (Raised (InvalidUsage ''items field required''),
        empty_request\<lparr>json := Inr (VDict [(''items'', VList [VDict []])])\<rparr>,
        [''items field required''])"
proof -
  let ?dmo = "no_models\<lparr>dmo_body := Some items_model\<rparr> :: unit DanticModelObj"
  let ?request = "empty_request\<lparr>json := Inr (VDict [(''items'', VList [VDict []])])\<rparr>"
  let ?fe = "\<lparr>loc = [LocStr ''items'', LocInt 0, LocStr ''name''], msg = ''field required''\<rparr>"
  have 1: "dmo_error ?dmo = NoHandler"
    by (simp add: no_models_def)
  have 2: "validate_try json_loads_sample ?request ?dmo = Inl (Validation (ValidationError [?fe]))"
    by (simp add: section_defs empty_request_def no_models_def items_model_def)
  have 3: "errors (ValidationError [?fe]) = ?fe # []"
    by simp
  have 4: "loc ?fe = LocStr ''items'' # [LocInt 0, LocStr ''name'']"
    by simp
  show ?thesis
    using validate_default_message
      [of ?dmo json_loads_sample ?request "ValidationError [?fe]" ?fe "[]" "LocStr ''items''"
        "[LocInt 0, LocStr ''name'']", OF 1 2 3 4]
    by simp
qed

text \<open>
  The claim as it was stated fails where a location has more than one item. The two
  bodies below give errors at the locations \<^verbatim>\<open>('items', 0, 'name')\<close> and
  \<^verbatim>\<open>('items',)\<close>, with the same message; \<^verbatim>\<open>validate\<close> raises the same text for
  both. So no way of writing locations that tells the two apart makes the raised text
  the location followed by a space and the message.
\<close>

theorem validate_default_message_counterexample:
  "validate_try json_loads_sample
      (empty_request\<lparr>json := Inr (VDict [(''items'', VList [VDict []])])\<rparr>)
      (no_models\<lparr>dmo_body := Some items_model\<rparr> :: unit DanticModelObj)
     = Inl (Validation (ValidationError
         [\<lparr>loc = [LocStr ''items'', LocInt 0, LocStr ''name''], msg = ''field required''\<rparr>]))
   \<and> fst (validate json_loads_sample
        (empty_request\<lparr>json := Inr (VDict [(''items'', VList [VDict []])])\<rparr>)
        (no_models\<lparr>dmo_body := Some items_model\<rparr> :: unit DanticModelObj))
     = Raised (InvalidUsage ''items field required'')
   \<and> validate_try json_loads_sample
      (empty_request\<lparr>json := Inr (VDict [])\<rparr>)
      (no_models\<lparr>dmo_body := Some items_model\<rparr> :: unit DanticModelObj)
     = Inl (Validation (ValidationError
         [\<lparr>loc = [LocStr ''items''], msg = ''field required''\<rparr>]))
   \<and> fst (validate json_loads_sample
        (empty_request\<lparr>json := Inr (VDict [])\<rparr>)
        (no_models\<lparr>dmo_body := Some items_model\<rparr> :: unit DanticModelObj))
     = Raised (InvalidUsage ''items field required'')
   \<and> \<not> (\<exists>show_loc.
         show_loc [LocStr ''items'', LocInt 0, LocStr ''name''] \<noteq> show_loc [LocStr ''items'']
         \<and> fst (validate json_loads_sample
               (empty_request\<lparr>json := Inr (VDict [(''items'', VList [VDict []])])\<rparr>)
               (no_models\<lparr>dmo_body := Some items_model\<rparr> :: unit DanticModelObj))
             = Raised (InvalidUsage (message_spec show_loc (ValidationError
                 [\<lparr>loc = [LocStr ''items'', LocInt 0, LocStr ''name''],
                    msg = ''field required''\<rparr>])))
         \<and> fst (validate json_loads_sample
               (empty_request\<lparr>json := Inr (VDict [])\<rparr>)
               (no_models\<lparr>dmo_body := Some items_model\<rparr> :: unit DanticModelObj))
             = Raised (InvalidUsage (message_spec show_loc (ValidationError
                 [\<lparr>loc = [LocStr ''items''], msg = ''field required''\<rparr>]))))"
  by (auto simp: validate_def first_error_message_def message_spec_def section_defs
      empty_request_def no_models_def items_model_def)

subsection \<open>Precedence of the sections\<close>

lemma header_section_output:
  "header_section request dmo p = Inr p' \<Longrightarrow>
   header_section request dmo Map.empty = Inr (section_output (header_section request dmo))
   \<and> p' = p ++ section_output (header_section request dmo)"
  by (auto simp: header_section_def update_validated_def section_output_def
      split: option.splits sum.splits)

lemma path_section_output:
  "path_section request dmo p = Inr p' \<Longrightarrow>
   path_section request dmo Map.empty = Inr (section_output (path_section request dmo))
   \<and> p' = p ++ section_output (path_section request dmo)"
  by (auto simp: path_section_def update_validated_def section_output_def
      split: option.splits sum.splits)

lemma query_section_output:
  "query_section request dmo p = Inr p' \<Longrightarrow>
   query_section request dmo Map.empty = Inr (section_output (query_section request dmo))
   \<and> p' = p ++ section_output (query_section request dmo)"
  by (auto simp: query_section_def update_validated_def section_output_def
      split: option.splits sum.splits)

lemma all_section_output:
  "all_section loads request dmo p = Inr p' \<Longrightarrow>
   all_section loads request dmo Map.empty = Inr (section_output (all_section loads request dmo))
   \<and> p' = p ++ section_output (all_section loads request dmo)"
  by (auto simp: all_section_def update_validated_def section_output_def
      split: option.splits sum.splits)

lemma form_section_output:
  "form_section loads request model p = Inr p' \<Longrightarrow>
   form_section loads request model Map.empty
     = Inr (section_output (form_section loads request model))
   \<and> p' = p ++ section_output (form_section loads request model)"
  by (auto simp: form_section_def Let_def and_then_def update_validated_def section_output_def
      split: option.splits sum.splits pyval.splits)

lemma body_section_output:
  "body_section request model p = Inr p' \<Longrightarrow>
   body_section request model Map.empty = Inr (section_output (body_section request model))
   \<and> p' = p ++ section_output (body_section request model)"
  by (auto simp: body_section_def update_validated_def section_output_def
      split: option.splits sum.splits pyval.splits)

lemma form_or_body_section_output:
  "form_or_body_section loads request dmo p = Inr p' \<Longrightarrow>
   form_or_body_section loads request dmo Map.empty
     = Inr (section_output (form_or_body_section loads request dmo))
   \<and> p' = p ++ section_output (form_or_body_section loads request dmo)"
  using form_section_output body_section_output
  by (auto simp: form_or_body_section_def section_output_def split: option.splits)

text \<open>The validated result of a section is what its model returns.\<close>

lemma section_output_header:
  "dmo_header dmo = Some model \<Longrightarrow> keywords_of (headers request) = Inr kwargs \<Longrightarrow>
   model kwargs = Inr d \<Longrightarrow>
   section_output (header_section request dmo) = d"
  by (simp add: section_output_def header_section_def update_validated_def)

lemma section_output_path:
  "dmo_path dmo = Some model \<Longrightarrow> model (match_info request) = Inr d \<Longrightarrow>
   section_output (path_section request dmo) = d"
  by (simp add: section_output_def path_section_def update_validated_def)

lemma section_output_query:
  "dmo_query dmo = Some model \<Longrightarrow> model (flatten (args request)) = Inr d \<Longrightarrow>
   section_output (query_section request dmo) = d"
  by (simp add: section_output_def query_section_def update_validated_def)

lemma section_output_body:
  "dmo_form dmo = None \<Longrightarrow> dmo_body dmo = Some model \<Longrightarrow> json request = Inr (VDict kvs) \<Longrightarrow>
   model (dict_of kvs) = Inr d \<Longrightarrow>
   section_output (form_or_body_section loads request dmo) = d"
  by (simp add: section_output_def form_or_body_section_def body_section_def
      update_validated_def)

lemma section_output_all:
  "dmo_all dmo = Some model \<Longrightarrow> model (all_params loads request) = Inr d \<Longrightarrow>
   section_output (all_section loads request dmo) = d"
  by (simp add: section_output_def all_section_def update_validated_def)

lemma precedence_lookup_map_add:
  "(h ++ p ++ q ++ b ++ a) key = precedence_lookup [a, b, q, p, h] key"
  by (simp add: map_add_def split: option.splits)

text \<open>
  C3 (amended). When every section that is configured validates, a key of the merged
  object holds the value of the first section that yields the key, in the order
  \<^verbatim>\<open>all\<close>, then \<^verbatim>\<open>form\<close> or \<^verbatim>\<open>body\<close>, then \<^verbatim>\<open>query\<close>, then \<^verbatim>\<open>path\<close>,
  then \<^verbatim>\<open>header\<close>: the \<^verbatim>\<open>all\<close> section is merged last and overwrites the
  others. In particular a key that the header, path and query sections share, and that
  no later section yields, holds the value of the query section.
\<close>

theorem validate_precedence:
  assumes "validate_try loads request dmo = Inr merged"
  shows "merged key =
    precedence_lookup
      [section_output (all_section loads request dmo),
       section_output (form_or_body_section loads request dmo),
       section_output (query_section request dmo),
       section_output (path_section request dmo),
       section_output (header_section request dmo)] key"
proof -
  from assms obtain p1 p2 p3 p4 where
    h: "header_section request dmo Map.empty = Inr p1" and
    p: "path_section request dmo p1 = Inr p2" and
    q: "query_section request dmo p2 = Inr p3" and
    b: "form_or_body_section loads request dmo p3 = Inr p4" and
    a: "all_section loads request dmo p4 = Inr merged"
    unfolding validate_try_def and_then_Inr by blast
  have "merged =
    section_output (header_section request dmo) ++ section_output (path_section request dmo)
    ++ section_output (query_section request dmo)
    ++ section_output (form_or_body_section loads request dmo)
    ++ section_output (all_section loads request dmo)"
    using header_section_output [OF h] path_section_output [OF p] query_section_output [OF q]
      form_or_body_section_output [OF b] all_section_output [OF a]
    by simp
  then show ?thesis
    by (simp only: precedence_lookup_map_add)
qed

text \<open>
  Header, path and query sections that all yield \<^verbatim>\<open>x\<close>, with the values
  \<^verbatim>\<open>h\<close>, \<^verbatim>\<open>p\<close> and \<^verbatim>\<open>q\<close>: the merged \<^verbatim>\<open>x\<close> is \<^verbatim>\<open>q\<close>.
\<close>

theorem validate_precedence_witness:
  "validate_try json_loads_sample x_request x_models = Inr [''x'' \<mapsto> VStr ''q'']
   \<and> section_output (query_section x_request x_models) ''x'' = Some (VStr ''q'')
   \<and> section_output (path_section x_request x_models) ''x'' = Some (VStr ''p'')
   \<and> section_output (header_section x_request x_models) ''x'' = Some (VStr ''h'')"
proof -
  have 1: "validate_try json_loads_sample x_request x_models = Inr [''x'' \<mapsto> VStr ''q'']"
    by (simp add: section_defs empty_request_def no_models_def pydantic_model_def
        x_model_def x_request_def x_models_def fun_eq_iff map_add_def)
  have 2: "section_output (query_section x_request x_models) ''x'' = Some (VStr ''q'')"
    by (simp add: section_output_def section_defs empty_request_def no_models_def
        pydantic_model_def x_model_def x_request_def x_models_def)
  have 3: "section_output (path_section x_request x_models) ''x'' = Some (VStr ''p'')"
    by (simp add: section_output_def section_defs empty_request_def no_models_def
        pydantic_model_def x_model_def x_request_def x_models_def)
  have 4: "section_output (header_section x_request x_models) ''x'' = Some (VStr ''h'')"
    by (simp add: section_output_def section_defs empty_request_def no_models_def
        pydantic_model_def x_model_def x_request_def x_models_def)
  have 5: "section_output (form_or_body_section json_loads_sample x_request x_models) ''x''
      = None"
    by (simp add: section_output_def section_defs empty_request_def no_models_def
        pydantic_model_def x_model_def x_request_def x_models_def)
  have 6: "section_output (all_section json_loads_sample x_request x_models) ''x'' = None"
    by (simp add: section_output_def section_defs empty_request_def no_models_def
        pydantic_model_def x_model_def x_request_def x_models_def)
  have "[''x'' \<mapsto> VStr ''q''] ''x'' = Some (VStr ''q'')"
    using validate_precedence [OF 1, of "''x''"] 2 3 4 5 6 by simp
  with 1 2 3 4 show ?thesis
    by blast
qed

text \<open>
  The claim as it was stated fails when \<^verbatim>\<open>dmo.all\<close> is set too. In both
  requests below every configured section validates, no form or body model is set,
  and the highest section of the order \<^verbatim>\<open>body/form > query > path > header\<close>
  that yields \<^verbatim>\<open>x\<close> is the query section; the merged \<^verbatim>\<open>x\<close> is the value of
  the \<^verbatim>\<open>all\<close> section. In the first the JSON body carries \<^verbatim>\<open>x\<close>, which only
  the \<^verbatim>\<open>all\<close> section reads: the query section yields \<^verbatim>\<open>q\<close>, the merged
  \<^verbatim>\<open>x\<close> is \<^verbatim>\<open>b\<close>. In the second the query model declares \<^verbatim>\<open>x\<close> an
  integer and the \<^verbatim>\<open>all\<close> model does not: the query section yields the number
  5, the merged \<^verbatim>\<open>x\<close> is the string \<^verbatim>\<open>5\<close>.
\<close>

theorem validate_precedence_counterexample:
  "(case validate_try json_loads_sample
      (x_request\<lparr>json := Inr (VDict [(''x'', VStr ''b'')])\<rparr>)
      (x_models\<lparr>dmo_all := Some x_model\<rparr>) of
      Inr merged \<Rightarrow> merged ''x'' = Some (VStr ''b'') \<and> merged ''x'' \<noteq> Some (VStr ''q'')
    | Inl e \<Rightarrow> False)
   \<and> section_output (form_or_body_section json_loads_sample
        (x_request\<lparr>json := Inr (VDict [(''x'', VStr ''b'')])\<rparr>)
        (x_models\<lparr>dmo_all := Some x_model\<rparr>)) = Map.empty
   \<and> section_output (query_section
        (x_request\<lparr>json := Inr (VDict [(''x'', VStr ''b'')])\<rparr>)
        (x_models\<lparr>dmo_all := Some x_model\<rparr>)) ''x'' = Some (VStr ''q'')
   \<and> section_output (path_section
        (x_request\<lparr>json := Inr (VDict [(''x'', VStr ''b'')])\<rparr>)
        (x_models\<lparr>dmo_all := Some x_model\<rparr>)) ''x'' = Some (VStr ''p'')
   \<and> section_output (header_section
        (x_request\<lparr>json := Inr (VDict [(''x'', VStr ''b'')])\<rparr>)
        (x_models\<lparr>dmo_all := Some x_model\<rparr>)) ''x'' = Some (VStr ''h'')
   \<and> (case validate_try json_loads_sample
      (x_request\<lparr>args := [''x'' \<mapsto> [''5'']]\<rparr>)
      (x_models\<lparr>dmo_query := Some (pydantic_model False [(''x'', TInt, None)]),
         dmo_all := Some x_model\<rparr>) of
      Inr merged \<Rightarrow> merged ''x'' = Some (VStr ''5'') \<and> merged ''x'' \<noteq> Some (VInt 5)
    | Inl e \<Rightarrow> False)
   \<and> section_output (form_or_body_section json_loads_sample
        (x_request\<lparr>args := [''x'' \<mapsto> [''5'']]\<rparr>)
        (x_models\<lparr>dmo_query := Some (pydantic_model False [(''x'', TInt, None)]),
           dmo_all := Some x_model\<rparr>)) = Map.empty
   \<and> section_output (query_section
        (x_request\<lparr>args := [''x'' \<mapsto> [''5'']]\<rparr>)
        (x_models\<lparr>dmo_query := Some (pydantic_model False [(''x'', TInt, None)]),
           dmo_all := Some x_model\<rparr>)) ''x'' = Some (VInt 5)"
  by (simp add: section_output_def section_defs empty_request_def no_models_def
      pydantic_model_def x_model_def x_request_def x_models_def)

subsection \<open>Deep copies of \<^verbatim>\<open>ParsedArgsObj\<close>\<close>







subsection \<open>Further properties of the constructor and of the handlers\<close>

text \<open>
  X1. An \<^verbatim>\<open>error\<close> argument that is true, not \<^verbatim>\<open>True\<close> and not callable makes
  the constructor fail with \<^verbatim>\<open>ServerError\<close>, when the earlier checks pass.
\<close>

theorem init_rejects_bad_error_handler:
  assumes "\<not> (truthy body \<and> truthy form_arg)"
    and "check_models [header, path, query, form_arg, body, all_arg] = None"
  shows "DanticModelObj_init header query path body form_arg all_arg (ErrOther :: 'r error_arg)
    = (Inl (ServerError ''sanic-dantic: the error handler must be a callable function or True''),
       [''sanic-dantic: the error handler must be a callable function or True''])"
  using assms by (simp add: DanticModelObj_init_def init_checks_def)

theorem init_rejects_bad_error_handler_witness:
  "\<not> (truthy Falsy \<and> truthy Falsy)
   \<and> check_models [Falsy, Falsy, Model page_model, Falsy, Falsy, Falsy] = None
   \<and> DanticModelObj_init Falsy (Model page_model) Falsy Falsy Falsy Falsy
        (ErrOther :: unit error_arg)
     = (Inl (ServerError ''sanic-dantic: the error handler must be a callable function or True''),
        [''sanic-dantic: the error handler must be a callable function or True''])"
  using init_rejects_bad_error_handler
    [of Falsy Falsy Falsy Falsy "Model page_model" Falsy, where 'r = unit]
  by simp

text \<open>
  X2. With a callable \<^verbatim>\<open>error\<close>, a \<^verbatim>\<open>ValidationError\<close> of the \<^verbatim>\<open>try\<close> whose
  first field error has a location makes \<^verbatim>\<open>validate\<close> return what the handler
  returns for the request and the error; nothing is logged or raised.
\<close>

theorem validate_calls_error_handler:
  assumes "dmo_error dmo = Handler handler"
    and "validate_try loads request dmo = Inl (Validation e)"
    and "errors e = fe # rest"
    and "loc fe = l # ls"
  shows "validate loads request dmo = (Handled (handler request e), request, [])"
  using assms by (simp add: validate_def first_error_message_def)

theorem validate_calls_error_handler_witness:
  "validate json_loads_sample (empty_request\<lparr>args := [''page'' \<mapsto> [''x'']]\<rparr>)
       (no_models\<lparr>dmo_query := Some page_model, dmo_error := Handler say_handled\<rparr>)
     = (Handled ''handled'', empty_request\<lparr>args := [''page'' \<mapsto> [''x'']]\<rparr>, [])"
proof -
  let ?dmo = "no_models\<lparr>dmo_query := Some page_model, dmo_error := Handler say_handled\<rparr>"
  let ?request = "empty_request\<lparr>args := [''page'' \<mapsto> [''x'']]\<rparr>"
  let ?fe = "\<lparr>loc = [LocStr ''page''], msg = ''value is not a valid integer''\<rparr>"
  have 1: "dmo_error ?dmo = Handler say_handled"
    by simp
  have 2: "validate_try json_loads_sample ?request ?dmo = Inl (Validation (ValidationError [?fe]))"
    by (simp add: section_defs empty_request_def no_models_def pydantic_model_def
        page_model_def)
  have 3: "errors (ValidationError [?fe]) = ?fe # []"
    by simp
  have 4: "loc ?fe = LocStr ''page'' # []"
    by simp
  show ?thesis
    using validate_calls_error_handler
      [of ?dmo say_handled json_loads_sample ?request "ValidationError [?fe]" ?fe "[]"
        "LocStr ''page''" "[]", OF 1 2 3 4]
    by (simp add: say_handled_def)
qed

text \<open>
  X3. With a body model and no form model, a \<^verbatim>\<open>request.json\<close> that is not a
  \<^verbatim>\<open>dict\<close> (\<^verbatim>\<open>None\<close> for an empty body) makes the call of the model raise
  \<^verbatim>\<open>TypeError\<close>, which \<^verbatim>\<open>validate\<close> raises again as \<^verbatim>\<open>ServerError\<close>.
\<close>

theorem body_not_a_mapping:
  assumes "dmo_header dmo = None" and "dmo_path dmo = None" and "dmo_query dmo = None"
    and "dmo_form dmo = None" and "dmo_body dmo = Some model"
    and "json request = Inr v" and "\<forall>kvs. v \<noteq> VDict kvs"
  shows "validate loads request dmo
    = (Raised (ServerErrorOfTypeError (NotAMapping v)), request, [])"
proof -
  from assms(6,7) have "body_section request model p = Inl (TypeError (NotAMapping v))" for p
    by (cases v) (simp_all add: body_section_def)
  with assms(1-5) have "validate_try loads request dmo = Inl (TypeError (NotAMapping v))"
    by (simp add: validate_try_def and_then_def header_section_def path_section_def
        query_section_def form_or_body_section_def)
  then show ?thesis
    by (simp add: validate_def)
qed

theorem body_not_a_mapping_witness:
  "validate json_loads_sample empty_request
       (no_models\<lparr>dmo_body := Some page_model\<rparr> :: unit DanticModelObj)
     = (Raised (ServerErrorOfTypeError (NotAMapping VNone)), empty_request, [])"
proof -
  let ?dmo = "no_models\<lparr>dmo_body := Some page_model\<rparr> :: unit DanticModelObj"
  have 1: "dmo_header ?dmo = None" "dmo_path ?dmo = None" "dmo_query ?dmo = None"
    "dmo_form ?dmo = None" "dmo_body ?dmo = Some page_model"
    by (simp_all add: no_models_def)
  have 2: "json empty_request = Inr VNone"
    by (simp add: empty_request_def)
  have 3: "\<forall>kvs. VNone \<noteq> VDict kvs"
    by simp
  show ?thesis
    using body_not_a_mapping [OF 1 2 3, of json_loads_sample]
    by simp
qed

end
